theory Spec2Isabelle
  imports Main "HOL-Library.Sublist"
begin

section \<open>Python values used by the documentation generator\<close>

text \<open>
  Python strings are modelled as \<^typ>\<open>string\<close>, one \<^typ>\<open>char\<close> per code point
  (code points up to 255). An exception is a value: its class and the text that
  \<open>str(e)\<close> returns.
\<close>

datatype exn_kind =
    ImportError | ModuleNotFoundError | RuntimeError | TypeError | AttributeError
  | FileNotFoundError | OtherException

datatype exn = Exn exn_kind string

fun str_exn :: "exn \<Rightarrow> string" where
  "str_exn (Exn k msg) = msg"

text \<open>\<open>except ImportError\<close> also catches the subclass \<open>ModuleNotFoundError\<close>.\<close>

fun is_ImportError :: "exn \<Rightarrow> bool" where
  "is_ImportError (Exn k msg) = (k = ImportError \<or> k = ModuleNotFoundError)"

subsection \<open>String methods\<close>

text \<open>\<open>s.startswith(p)\<close> and \<open>s.endswith(p)\<close>.\<close>

definition startswith :: "string \<Rightarrow> string \<Rightarrow> bool" where
  "startswith s p = (take (length p) s = p)"

definition endswith :: "string \<Rightarrow> string \<Rightarrow> bool" where
  "endswith s p = (length p \<le> length s \<and> drop (length s - length p) s = p)"

text \<open>\<open>sep.join(xs)\<close>.\<close>

fun join :: "string \<Rightarrow> string list \<Rightarrow> string" where
  "join sep [] = []"
| "join sep [x] = x"
| "join sep (x # y # ys) = x @ sep @ join sep (y # ys)"

text \<open>
  \<open>s.strip()\<close> removes leading and trailing whitespace: the characters for which
  \<open>str.isspace\<close> holds, here those below code point 256.
\<close>

definition isspace :: "char \<Rightarrow> bool" where
  "isspace c = (c \<in> set [CHR 0x09, CHR 0x0A, CHR 0x0B, CHR 0x0C, CHR 0x0D,
                           CHR 0x1C, CHR 0x1D, CHR 0x1E, CHR 0x1F, CHR 0x20,
                           CHR 0x85, CHR 0xA0])"

definition strip :: "string \<Rightarrow> string" where
  "strip s = rev (dropWhile isspace (rev (dropWhile isspace s)))"

text \<open>\<open>s.split('\n')\<close>: the pieces between line feeds, at least one piece.\<close>

fun split_lines :: "string \<Rightarrow> string list" where
  "split_lines [] = [[]]"
| "split_lines (c # cs) =
     (if c = CHR 0x0A then [] # split_lines cs
      else (case split_lines cs of
              [] \<Rightarrow> [[c]]
            | l # ls \<Rightarrow> (c # l) # ls))"

section \<open>Syntax trees\<close>

text \<open>
  What the generator reads of an astroid node. \<open>args.args\<close> is the list of the
  positional-or-keyword parameters' names, or \<open>None\<close> for a function whose signature
  is not retrievable; the other parameter groups, \<open>posonlyargs\<close> (the parameters
  declared before a \<open>/\<close>) among them, are never read. \<open>doc_node\<close> is \<open>None\<close>
  or holds the docstring's value; \<open>decorators\<close> is \<open>None\<close> or holds the decorator
  expressions, each as the text \<open>as_string()\<close> gives.
\<close>

record arguments =
  args :: "string list option"
  posonlyargs :: "string list"
  kwonlyargs :: "string list"
  vararg :: "string option"
  kwarg :: "string option"

record function_def =
  fn_args :: arguments
  fn_doc_node :: "string option"
  fn_decorators :: "string list option"

datatype node =
    FunctionDef function_def
  | ClassDef class_def
  | OtherNode
and class_def =
    Class_def (cls_doc_node: "string option") (cls_decorators: "string list option")
              (cls_items: "(string \<times> node) list")

record module =
  mod_doc_node :: "string option"
  mod_items :: "(string \<times> node) list"

section \<open>Symbol records\<close>

text \<open>
  The tuples \<open>('function', name, signature, doc, decorators)\<close>,
  \<open>('class', name, class_doc, class_decorators, methods)\<close> and, for a method,
  \<open>(method_name, method_signature, method_doc, method_decorators)\<close>.
\<close>

type_synonym method_record = "string \<times> string \<times> string \<times> string list"

datatype symbol =
    Function string string string "string list"
  | Class string string "string list" "method_record list"

section \<open>Symbol extraction\<close>

definition is_public_symbol :: "string \<Rightarrow> bool" where
  "is_public_symbol name =
     (\<not> startswith name ''_'' \<or> (startswith name ''__'' \<and> endswith name ''__''))"

text \<open>
  \<open>get_params\<close> iterates over \<open>func.args.args\<close>; iterating over \<open>None\<close> raises
  \<open>TypeError\<close>.
\<close>

definition get_params :: "function_def \<Rightarrow> exn + string" where
  "get_params func =
     (case args (fn_args func) of
        None \<Rightarrow> Inl (Exn TypeError ([CHR 0x27] @ ''NoneType'' @ [CHR 0x27] @ '' object is not iterable''))
      | Some names \<Rightarrow> Inr (join '', '' names))"

definition get_decorators :: "string list option \<Rightarrow> string list" where
  "get_decorators decorators = (case decorators of None \<Rightarrow> [] | Some nodes \<Rightarrow> nodes)"

definition doc_value :: "string option \<Rightarrow> string" where
  "doc_value doc_node = (case doc_node of None \<Rightarrow> [] | Some v \<Rightarrow> v)"

definition log_error :: "string \<Rightarrow> exn \<Rightarrow> exn + 'a" where
  "log_error name error =
     Inl (Exn RuntimeError (''Error processing symbol '' @ name @ '': '' @ str_exn error))"

definition process_function :: "function_def \<Rightarrow> string \<Rightarrow> bool \<Rightarrow> exn + symbol option" where
  "process_function func name include_no_docstring =
     (case get_params func of
        Inl e \<Rightarrow> Inl e
      | Inr params \<Rightarrow>
          (let signature = name @ ''('' @ params @ '')'';
               doc = doc_value (fn_doc_node func);
               decorators = get_decorators (fn_decorators func)
           in if include_no_docstring \<or> doc \<noteq> []
              then Inr (Some (Function name signature doc decorators))
              else Inr None))"

definition process_method :: "function_def \<Rightarrow> string \<Rightarrow> exn + method_record" where
  "process_method method method_name =
     (case get_params method of
        Inl e \<Rightarrow> Inl e
      | Inr method_params \<Rightarrow>
          (let method_signature = method_name @ ''('' @ method_params @ '')'';
               method_doc = doc_value (fn_doc_node method);
               method_decorators = get_decorators (fn_decorators method)
           in Inr (method_name, method_signature, method_doc, method_decorators)))"

fun is_valid_method :: "node \<Rightarrow> string \<Rightarrow> bool" where
  "is_valid_method (FunctionDef f) method_name = is_public_symbol method_name"
| "is_valid_method other method_name = False"

text \<open>
  The list comprehension of \<open>process_class\<close>: the class body's bindings in order,
  keeping the valid methods; the first exception ends it.
\<close>

fun process_methods :: "(string \<times> node) list \<Rightarrow> exn + method_record list" where
  "process_methods [] = Inr []"
| "process_methods ((method_name, method) # rest) =
     (case method of
        FunctionDef f \<Rightarrow>
          (if is_valid_method method method_name
           then (case process_method f method_name of
                   Inl e \<Rightarrow> Inl e
                 | Inr m \<Rightarrow> (case process_methods rest of
                               Inl e \<Rightarrow> Inl e
                             | Inr ms \<Rightarrow> Inr (m # ms)))
           else process_methods rest)
      | other \<Rightarrow> process_methods rest)"

definition process_class :: "class_def \<Rightarrow> string \<Rightarrow> bool \<Rightarrow> exn + symbol" where
  "process_class cls name include_no_docstring =
     (let class_doc = doc_value (cls_doc_node cls);
          class_decorators = get_decorators (cls_decorators cls)
      in case process_methods (cls_items cls) of
           Inl e \<Rightarrow> Inl e
         | Inr methods \<Rightarrow> Inr (Class name class_doc class_decorators methods))"

text \<open>
  The body of the \<open>try\<close> of \<open>get_public_symbols\<close> for one binding: the list of
  symbols after it, or the exception raised.
\<close>

fun try_symbol :: "string \<Rightarrow> node \<Rightarrow> bool \<Rightarrow> symbol list \<Rightarrow> exn + symbol list" where
  "try_symbol name (FunctionDef f) include_no_docstring symbols =
     (case process_function f name include_no_docstring of
        Inl e \<Rightarrow> Inl e
      | Inr None \<Rightarrow> Inr symbols
      | Inr (Some symbol) \<Rightarrow> Inr (symbols @ [symbol]))"
| "try_symbol name (ClassDef cls) include_no_docstring symbols =
     (case process_class cls name include_no_docstring of
        Inl e \<Rightarrow> Inl e
      | Inr symbol \<Rightarrow> Inr (symbols @ [symbol]))"
| "try_symbol name OtherNode include_no_docstring symbols = Inr symbols"

fun symbols_loop :: "(string \<times> node) list \<Rightarrow> bool \<Rightarrow> symbol list \<Rightarrow> exn + symbol list" where
  "symbols_loop [] include_no_docstring symbols = Inr symbols"
| "symbols_loop ((name, obj) # rest) include_no_docstring symbols =
     (if is_public_symbol name
      then (case try_symbol name obj include_no_docstring symbols of
              Inl e \<Rightarrow> log_error name e
            | Inr symbols' \<Rightarrow> symbols_loop rest include_no_docstring symbols')
      else symbols_loop rest include_no_docstring symbols)"

definition get_public_symbols :: "module \<Rightarrow> bool \<Rightarrow> exn + symbol list" where
  "get_public_symbols m include_no_docstring =
     symbols_loop (mod_items m) include_no_docstring []"

section \<open>Rendering\<close>

text \<open>The decorators, each behind an at sign, joined by single spaces.\<close>

definition decorator_str :: "string list \<Rightarrow> string" where
  "decorator_str decorators = join '' '' (map (\<lambda>d. CHR ''@'' # d) decorators)"

text \<open>
  The text that \<open>generate_filelist\<close> writes for one method, one symbol and one module
  section. Consecutive \<open>f.write\<close> calls on the one handle are the concatenation of
  their arguments.
\<close>

fun method_text :: "method_record \<Rightarrow> string" where
  "method_text (method_name, method_signature, method_doc, method_decorators) =
     ''    - `'' @ decorator_str method_decorators @ '' def '' @ method_signature @ ''`\<newline>''
     @ (if method_doc \<noteq> [] then ''        '' @ strip method_doc @ ''\<newline>\<newline>'' else [])"

fun symbol_text :: "symbol \<Rightarrow> string" where
  "symbol_text (Function name signature doc decorators) =
     ''- `'' @ decorator_str decorators @ '' def '' @ signature @ ''`\<newline>''
     @ (if doc \<noteq> [] then ''    '' @ strip doc @ ''\<newline>\<newline>'' else [])"
| "symbol_text (Class name class_doc class_decorators methods) =
     ''- `'' @ decorator_str class_decorators @ '' class '' @ name @ ''`\<newline>''
     @ (if class_doc \<noteq> [] then ''    '' @ strip class_doc @ ''\<newline>\<newline>'' else [])
     @ concat (map method_text methods)"

definition section_text :: "string \<Rightarrow> module \<Rightarrow> symbol list \<Rightarrow> string" where
  "section_text module_name m symbols =
     ''## '' @ module_name @ ''\<newline>\<newline>''
     @ (let module_doc = doc_value (mod_doc_node m)
        in if module_doc \<noteq> []
           then ''> '' @ join ''\<newline>> '' (split_lines (strip module_doc)) @ ''\<newline>\<newline>''
           else [])
     @ concat (map symbol_text symbols)"

text \<open>
  \<open>format_symbol\<close>, the formatter the file defines beside the inline rendering.
  \<open>after_first\<close> is \<open>s.split(c, 1)[1]\<close> for a string that contains \<open>c\<close>,
  \<open>before_last\<close> is \<open>s.rsplit(c, 1)[0]\<close>.
\<close>

definition after_first :: "char \<Rightarrow> string \<Rightarrow> string" where
  "after_first c s = drop 1 (dropWhile (\<lambda>x. x \<noteq> c) s)"

definition before_last :: "char \<Rightarrow> string \<Rightarrow> string" where
  "before_last c s =
     (if c \<in> set s then rev (drop 1 (dropWhile (\<lambda>x. x \<noteq> c) (rev s))) else s)"

definition format_symbol ::
  "string \<Rightarrow> string \<Rightarrow> string \<Rightarrow> string list option \<Rightarrow> bool \<Rightarrow> string" where
  "format_symbol name signature doc decorators is_method =
     (let params = (if CHR ''('' \<in> set signature
                    then before_last CHR '')'' (after_first CHR ''('' signature) else []);
          dec_str = (case decorators of
                       None \<Rightarrow> []
                     | Some ds \<Rightarrow> if ds \<noteq> [] then decorator_str ds @ '' '' else []);
          formatted = (if is_method
                       then ''- `'' @ dec_str @ name @ ''('' @ params @ '')`\<newline>''
                       else ''- `'' @ dec_str @ ''def '' @ name @ ''('' @ params @ '')`\<newline>'')
      in if doc \<noteq> []
         then formatted @ ''    '' @ join ''\<newline>    '' (split_lines (strip doc)) @ ''\<newline>''
         else formatted)"

section \<open>The run\<close>

text \<open>
  The world a run acts on: the files, by path, and the lines printed. The collaborators
  of the run are parameters: \<open>importlib.import_module\<close>, \<open>pkgutil.walk_packages\<close>
  (the module names it yields for a path and a prefix) and
  \<open>MANAGER.ast_from_module_name\<close>, and \<open>open_error\<close>, the exception that
  \<open>open(path, 'w')\<close> raises for a path that cannot be opened for writing (a missing
  directory, a directory, no permission), \<open>None\<close> for a path that can. An imported
  module that is not a package has no \<open>__path__\<close>.
\<close>

record world =
  fs :: "string \<rightharpoonup> string"
  stdout :: "string list"

record package =
  pkg_name :: string
  pkg_path :: "string list option"

record env =
  open_error :: "string \<Rightarrow> exn option"
  import_module :: "string \<Rightarrow> exn + package"
  walk_packages :: "string list \<Rightarrow> string \<Rightarrow> string list"
  ast_from_module_name :: "string \<Rightarrow> exn + module"

text \<open>
  \<open>open(path, 'w')\<close>: the empty path is never opened; a path that is opened names an
  empty file from then on.
\<close>

definition open_w :: "env \<Rightarrow> string \<Rightarrow> world \<Rightarrow> exn + world" where
  "open_w E path w =
     (if path = []
      then Inl (Exn FileNotFoundError
                  (''[Errno 2] No such file or directory: '' @ [CHR 0x27, CHR 0x27]))
      else (case open_error E path of
              Some e \<Rightarrow> Inl e
            | None \<Rightarrow> Inr (w\<lparr>fs := (fs w)(path \<mapsto> [])\<rparr>)))"

definition f_write :: "string \<Rightarrow> string \<Rightarrow> world \<Rightarrow> world" where
  "f_write path s w =
     w\<lparr>fs := (fs w)(path \<mapsto> (case fs w path of None \<Rightarrow> s | Some old \<Rightarrow> old @ s))\<rparr>"

definition print :: "string \<Rightarrow> world \<Rightarrow> world" where
  "print s w = w\<lparr>stdout := stdout w @ [s]\<rparr>"

definition module_error :: "string \<Rightarrow> exn \<Rightarrow> exn" where
  "module_error module_name e =
     Exn RuntimeError (''Error processing '' @ module_name @ '': '' @ str_exn e)"

text \<open>One turn of the loop over the modules: the exception raised, if any, and the world.\<close>

definition process_module ::
  "env \<Rightarrow> bool \<Rightarrow> string \<Rightarrow> string \<Rightarrow> world \<Rightarrow> exn option \<times> world" where
  "process_module E include_no_docstring output_file module_name w =
     (let w1 = print (''Processing module: '' @ module_name) w
      in case ast_from_module_name E module_name of
           Inl e \<Rightarrow> (Some (module_error module_name e), w1)
         | Inr m \<Rightarrow>
             (case get_public_symbols m include_no_docstring of
                Inl e \<Rightarrow> (Some (module_error module_name e), w1)
              | Inr symbols \<Rightarrow>
                  if symbols \<noteq> []
                  then (None, f_write output_file (section_text module_name m symbols) w1)
                  else (None, print (''No public symbols found in '' @ module_name) w1)))"

fun process_modules ::
  "env \<Rightarrow> bool \<Rightarrow> string \<Rightarrow> string list \<Rightarrow> world \<Rightarrow> exn option \<times> world" where
  "process_modules E include_no_docstring output_file [] w = (None, w)"
| "process_modules E include_no_docstring output_file (module_name # rest) w =
     (case process_module E include_no_docstring output_file module_name w of
        (Some e, w') \<Rightarrow> (Some e, w')
      | (None, w') \<Rightarrow> process_modules E include_no_docstring output_file rest w')"

definition generate_filelist ::
  "env \<Rightarrow> string \<Rightarrow> string \<Rightarrow> bool \<Rightarrow> world \<Rightarrow> exn option \<times> world" where
  "generate_filelist E package_name output_file include_no_docstring w =
     (case open_w E output_file w of
        Inl e \<Rightarrow> (Some e, w)
      | Inr w1 \<Rightarrow>
          (let w2 = f_write output_file
                      (''# '' @ package_name @ '' Module Documentation\<newline>\<newline>'') w1
           in case import_module E package_name of
                Inl e \<Rightarrow>
                  if is_ImportError e
                  then (Some (Exn ImportError
                          (''Could not import package '' @ package_name @ ''. Is it installed?'')),
                        w2)
                  else (Some e, w2)
              | Inr package \<Rightarrow>
                  (case pkg_path package of
                     None \<Rightarrow>
                       (Some (Exn AttributeError
                          (''module '' @ [CHR 0x27] @ pkg_name package @ [CHR 0x27]
                           @ '' has no attribute '' @ [CHR 0x27] @ ''__path__'' @ [CHR 0x27])),
                        w2)
                   | Some path \<Rightarrow>
                       (case process_modules E include_no_docstring output_file
                               (walk_packages E path (pkg_name package @ ''.'')) w2 of
                          (Some e, w3) \<Rightarrow> (Some e, w3)
                        | (None, w3) \<Rightarrow>
                            (None, print (''Documentation generated in '' @ output_file) w3)))))"

text \<open>
  Concrete inputs: a function node that has positional-or-keyword parameters only, and
  an environment in which every non-empty path can be opened and no package can be
  imported.
\<close>

definition simple_function ::
  "string list option \<Rightarrow> string option \<Rightarrow> string list option \<Rightarrow> function_def" where
  "simple_function names doc decs =
     \<lparr>fn_args = \<lparr>args = names, posonlyargs = [], kwonlyargs = [], vararg = None, kwarg = None\<rparr>,
      fn_doc_node = doc, fn_decorators = decs\<rparr>"


section \<open>Visibility\<close>

lemma startswith_underscore: "startswith n ''_'' \<longleftrightarrow> (\<exists>r. n = CHR ''_'' # r)"
  by (cases n) (auto simp: startswith_def)

lemma startswith_prefix: "startswith n p \<longleftrightarrow> (\<exists>r. n = p @ r)"
proof
  assume "startswith n p"
  then have "n = p @ drop (length p) n"
    by (metis append_take_drop_id startswith_def)
  then show "\<exists>r. n = p @ r" ..
next
  assume "\<exists>r. n = p @ r"
  then show "startswith n p" by (auto simp: startswith_def)
qed

lemma endswith_suffix: "endswith n p \<longleftrightarrow> (\<exists>r. n = r @ p)"
proof
  assume h: "endswith n p"
  then have "n = take (length n - length p) n @ p"
    by (metis append_take_drop_id endswith_def)
  then show "\<exists>r. n = r @ p" ..
next
  assume "\<exists>r. n = r @ p"
  then show "endswith n p" by (auto simp: endswith_def)
qed

text \<open>
  C1. A name is public exactly when it does not start with \<open>_\<close>, or it starts with
  \<open>__\<close> and ends with \<open>__\<close>. So \<open>foo\<close> and \<open>__init__\<close> are public, \<open>_foo\<close> and
  \<open>__foo\<close> are not.
\<close>

theorem is_public_symbol_iff:
  "(is_public_symbol n \<longleftrightarrow>
      (\<not> (\<exists>r. n = CHR ''_'' # r)) \<or> ((\<exists>r. n = ''__'' @ r) \<and> (\<exists>r. n = r @ ''__'')))
   \<and> is_public_symbol ''foo'' \<and> \<not> is_public_symbol ''_foo''
   \<and> is_public_symbol ''__init__'' \<and> \<not> is_public_symbol ''__foo''"
proof -
  have "is_public_symbol n \<longleftrightarrow>
      (\<not> (\<exists>r. n = CHR ''_'' # r)) \<or> ((\<exists>r. n = ''__'' @ r) \<and> (\<exists>r. n = r @ ''__''))"
    unfolding is_public_symbol_def startswith_underscore
    by (simp only: startswith_prefix endswith_suffix)
  moreover have "is_public_symbol ''foo''" "\<not> is_public_symbol ''_foo''"
    "is_public_symbol ''__init__''" "\<not> is_public_symbol ''__foo''"
    by (simp_all add: is_public_symbol_def startswith_def endswith_def)
  ultimately show ?thesis by blast
qed

theorem is_public_symbol_iff_witness:
  "is_public_symbol ''__x__'' \<and> \<not> is_public_symbol ''_x''"
proof -
  have a: "\<exists>r. ''__x__'' = ''__'' @ r" by simp
  have b: "\<exists>r. ''__x__'' = r @ ''__''"
  proof
    show "''__x__'' = ''__x'' @ ''__''" by simp
  qed
  have c: "\<exists>r. ''_x'' = CHR ''_'' # r" by simp
  have d: "\<not> (\<exists>r. ''_x'' = ''__'' @ r)" by simp
  from a b c d is_public_symbol_iff [of "''__x__''"] is_public_symbol_iff [of "''_x''"]
  show ?thesis by blast
qed

section \<open>Parameters\<close>

lemma join_hd_tl:
  "names \<noteq> [] \<Longrightarrow> join sep names = hd names @ concat (map (\<lambda>n. sep @ n) (tl names))"
  by (induction sep names rule: join.induct) auto

text \<open>
  C8, as the claim states it, fails: \<open>get_params\<close> reads \<open>args.args\<close> alone, and the
  parameters declared before a \<open>/\<close> are in \<open>args.posonlyargs\<close>. For
  \<open>def f(a, b, c, /)\<close> the extracted string is empty, for \<open>def f(a, b, /, c)\<close> it
  is \<open>c\<close>.
\<close>

theorem get_params_counterexample:
  "get_params \<lparr>fn_args = \<lparr>args = Some [], posonlyargs = [''a'', ''b'', ''c''],
                           kwonlyargs = [], vararg = None, kwarg = None\<rparr>,
               fn_doc_node = None, fn_decorators = None\<rparr> = Inr []
   \<and> get_params \<lparr>fn_args = \<lparr>args = Some [''c''], posonlyargs = [''a'', ''b''],
                             kwonlyargs = [], vararg = None, kwarg = None\<rparr>,
                 fn_doc_node = None, fn_decorators = None\<rparr> = Inr ''c''"
  by (simp add: get_params_def)

text \<open>
  C8, amended. For a function whose positional-or-keyword parameters, the list
  \<open>args.args\<close>, are declared as \<open>a, b, c\<close>, the extracted parameter string is
  \<open>a, b, c\<close>: in general the first name followed by each later name behind a comma
  and a space, in the declared order. The other parameter groups of the node
  (positional-only, keyword-only, \<open>*args\<close>, \<open>**kwargs\<close>) are not captured and have
  no effect on it.
\<close>

theorem get_params_order:
  "(args (fn_args func) = Some [a, b, c] \<longrightarrow>
      get_params func = Inr (a @ '', '' @ b @ '', '' @ c))
   \<and> (args (fn_args func) = Some (n # names) \<longrightarrow>
        get_params func = Inr (n @ concat (map (\<lambda>x. '', '' @ x) names)))
   \<and> get_params (func\<lparr>fn_args := (fn_args func)\<lparr>posonlyargs := p, kwonlyargs := k,
                                                  vararg := v, kwarg := kw\<rparr>\<rparr>)
       = get_params func"
  using join_hd_tl [of "n # names" "'', ''"]
  by (simp add: get_params_def)

theorem get_params_order_witness:
  "get_params \<lparr>fn_args = \<lparr>args = Some [''a'', ''b'', ''c''], posonlyargs = [''p''],
                           kwonlyargs = [''k''], vararg = Some ''rest'', kwarg = None\<rparr>,
               fn_doc_node = None, fn_decorators = None\<rparr> = Inr ''a, b, c''"
  using get_params_order [where func = "\<lparr>fn_args = \<lparr>args = Some [''a'', ''b'', ''c''],
        posonlyargs = [''p''], kwonlyargs = [''k''], vararg = Some ''rest'', kwarg = None\<rparr>,
        fn_doc_node = None, fn_decorators = None\<rparr>"
      and a = "''a''" and b = "''b''" and c = "''c''" and n = "''a''" and names = "[''b'', ''c'']"]
  by simp

section \<open>Functions, classes and methods\<close>

lemmas extraction_defs =
  simple_function_def is_public_symbol_def startswith_def endswith_def doc_value_def
  get_decorators_def process_function_def process_method_def process_class_def get_params_def
  get_public_symbols_def log_error_def

lemma symbols_loop_append:
  "symbols_loop (xs @ ys) flag symbols =
     (case symbols_loop xs flag symbols of
        Inl e \<Rightarrow> Inl e
      | Inr symbols' \<Rightarrow> symbols_loop ys flag symbols')"
  by (induction xs flag symbols rule: symbols_loop.induct)
     (auto simp: log_error_def split: sum.splits)

text \<open>
  C2, as the claim states it, fails: with \<open>include_no_docstring\<close> true, a public
  function whose parameter list is not retrievable (\<open>args.args\<close> is \<open>None\<close>) yields
  no record; \<open>get_params\<close> raises and the module pass ends with a \<open>RuntimeError\<close>.
\<close>

theorem process_function_counterexample:
  "is_public_symbol ''f''
   \<and> process_function (simple_function None (Some ''doc'') None) ''f'' True
     = Inl (Exn TypeError ([CHR 0x27] @ ''NoneType'' @ [CHR 0x27] @ '' object is not iterable''))
   \<and> get_public_symbols
       \<lparr>mod_doc_node = None,
        mod_items = [(''f'', FunctionDef (simple_function None (Some ''doc'') None))]\<rparr> True
     = Inl (Exn RuntimeError (''Error processing symbol f: '' @ [CHR 0x27] @ ''NoneType''
                               @ [CHR 0x27] @ '' object is not iterable''))"
  by (simp add: extraction_defs)

text \<open>
  C2, amended. A function with an empty docstring yields no record when
  \<open>include_no_docstring\<close> is false. For a public top-level function whose parameter
  list is retrievable: with the flag false and an empty docstring the loop of
  \<open>get_public_symbols\<close> goes on with the symbol list unchanged; with the flag true a
  record is appended whatever the docstring is, and its docstring is the empty string
  when the node has none.
\<close>

theorem process_function_policy:
  "(doc_value (fn_doc_node func) = [] \<longrightarrow>
      (\<forall>r. process_function func name False \<noteq> Inr (Some r)))
   \<and> (is_public_symbol name \<and> args (fn_args func) = Some ps \<longrightarrow>
        (doc_value (fn_doc_node func) = [] \<longrightarrow>
           process_function func name False = Inr None
           \<and> symbols_loop ((name, FunctionDef func) # rest) False symbols
               = symbols_loop rest False symbols)
        \<and> symbols_loop ((name, FunctionDef func) # rest) True symbols
            = symbols_loop rest True
                (symbols @ [Function name (name @ ''('' @ join '', '' ps @ '')'')
                              (doc_value (fn_doc_node func))
                              (get_decorators (fn_decorators func))])
        \<and> (fn_doc_node func = None \<longrightarrow>
             process_function func name True
               = Inr (Some (Function name (name @ ''('' @ join '', '' ps @ '')'') []
                              (get_decorators (fn_decorators func))))))"
  by (auto simp: process_function_def get_params_def doc_value_def Let_def
           split: sum.splits option.splits)

theorem process_function_policy_witness:
  "symbols_loop [(''f'', FunctionDef (simple_function (Some [''x'']) None None))] False [] = Inr []
   \<and> symbols_loop [(''f'', FunctionDef (simple_function (Some [''x'']) None None))] True []
       = Inr [Function ''f'' ''f(x)'' [] []]"
  using process_function_policy [where func = "simple_function (Some [''x'']) None None"
      and name = "''f''" and ps = "[''x'']" and rest = "[]" and symbols = "[]"]
  by (simp add: simple_function_def is_public_symbol_def startswith_def doc_value_def
        get_decorators_def)

lemma process_methods_ok:
  "\<forall>(mn, m) \<in> set items. \<forall>f. m = FunctionDef f \<and> is_public_symbol mn
       \<longrightarrow> args (fn_args f) \<noteq> None
   \<Longrightarrow> \<exists>methods. process_methods items = Inr methods"
proof (induction items)
  case Nil
  then show ?case by simp
next
  case (Cons x items)
  obtain mn m where x: "x = (mn, m)" by (cases x)
  from Cons obtain ms where ms: "process_methods items = Inr ms" by auto
  show ?case
  proof (cases m)
    case (FunctionDef f)
    show ?thesis
    proof (cases "is_public_symbol mn")
      case True
      with Cons.prems x FunctionDef obtain ps where "args (fn_args f) = Some ps" by auto
      then show ?thesis using x FunctionDef True ms
        by (simp add: process_method_def get_params_def)
    next
      case False
      then show ?thesis using x FunctionDef ms by simp
    qed
  qed (use x ms in simp_all)
qed

lemma process_methods_exact:
  "process_methods items = Inr methods \<Longrightarrow>
   list_all2 (\<lambda>(mn, m) r. \<exists>f ps. m = FunctionDef f \<and> args (fn_args f) = Some ps
                 \<and> r = (mn, mn @ ''('' @ join '', '' ps @ '')'',
                        doc_value (fn_doc_node f), get_decorators (fn_decorators f)))
     (filter (\<lambda>(mn, m). (\<exists>f. m = FunctionDef f) \<and> is_public_symbol mn) items) methods"
proof (induction items arbitrary: methods)
  case Nil
  then show ?case by simp
next
  case (Cons x items)
  obtain mn m where x: "x = (mn, m)" by (cases x)
  show ?case
  proof (cases m)
    case (FunctionDef f)
    show ?thesis
    proof (cases "is_public_symbol mn")
      case True
      from Cons.prems x FunctionDef True
      obtain r ms where r: "process_method f mn = Inr r"
        and ms: "process_methods items = Inr ms" and eq: "methods = r # ms"
        by (auto split: sum.splits)
      from r obtain ps where ps: "args (fn_args f) = Some ps"
        and rr: "r = (mn, mn @ ''('' @ join '', '' ps @ '')'',
                      doc_value (fn_doc_node f), get_decorators (fn_decorators f))"
        by (auto simp: process_method_def get_params_def Let_def split: option.splits)
      from Cons.IH [OF ms] ps rr show ?thesis
        using x FunctionDef True eq by simp
    next
      case False
      with Cons x FunctionDef show ?thesis by simp
    qed
  next
    case (ClassDef c)
    with Cons x show ?thesis by simp
  next
    case OtherNode
    with Cons x show ?thesis by simp
  qed
qed

text \<open>
  C3, as the claim states it, fails: a public class with a public method whose
  parameter list is not retrievable yields no class record under either value of
  \<open>include_no_docstring\<close>; the comprehension over its methods raises and the module
  pass ends with a \<open>RuntimeError\<close>.
\<close>

theorem process_class_counterexample:
  "is_public_symbol ''K''
   \<and> process_class
       (Class_def (Some ''A class'') None
          [(''m'', FunctionDef (simple_function None None None))]) ''K'' True
     = Inl (Exn TypeError ([CHR 0x27] @ ''NoneType'' @ [CHR 0x27] @ '' object is not iterable''))
   \<and> get_public_symbols
       \<lparr>mod_doc_node = None,
        mod_items = [(''K'', ClassDef (Class_def (Some ''A class'') None
                              [(''m'', FunctionDef (simple_function None None None))]))]\<rparr> True
     = Inl (Exn RuntimeError (''Error processing symbol K: '' @ [CHR 0x27] @ ''NoneType''
                               @ [CHR 0x27] @ '' object is not iterable''))
   \<and> get_public_symbols
       \<lparr>mod_doc_node = None,
        mod_items = [(''K'', ClassDef (Class_def (Some ''A class'') None
                              [(''m'', FunctionDef (simple_function None None None))]))]\<rparr> False
     = Inl (Exn RuntimeError (''Error processing symbol K: '' @ [CHR 0x27] @ ''NoneType''
                               @ [CHR 0x27] @ '' object is not iterable''))"
  by (simp add: extraction_defs)

text \<open>
  C3, amended. \<open>include_no_docstring\<close> has no effect on \<open>process_class\<close>, and the
  docstring has no effect on whether it returns a record. For a public top-level class
  whose public methods all have a retrievable parameter list, a class record is
  produced and appended to the symbol list, with or without a class docstring and under
  either value of the flag.
\<close>

theorem process_class_always:
  "process_class cls name True = process_class cls name False
   \<and> isl (process_class (Class_def d decs items) name flag)
       = isl (process_class (Class_def d' decs items) name flag')
   \<and> (is_public_symbol name
        \<and> (\<forall>(mn, m) \<in> set (cls_items cls). \<forall>f. m = FunctionDef f \<and> is_public_symbol mn
               \<longrightarrow> args (fn_args f) \<noteq> None)
       \<longrightarrow> (\<exists>methods.
              process_class cls name flag
                = Inr (Class name (doc_value (cls_doc_node cls))
                         (get_decorators (cls_decorators cls)) methods)
              \<and> symbols_loop ((name, ClassDef cls) # rest) flag symbols
                  = symbols_loop rest flag
                      (symbols @ [Class name (doc_value (cls_doc_node cls))
                                    (get_decorators (cls_decorators cls)) methods])))"
proof -
  have a: "process_class cls name True = process_class cls name False"
    by (simp add: process_class_def)
  have b: "isl (process_class (Class_def d decs items) name flag)
       = isl (process_class (Class_def d' decs items) name flag')"
    by (simp add: process_class_def split: sum.splits)
  have c: "\<exists>methods.
              process_class cls name flag
                = Inr (Class name (doc_value (cls_doc_node cls))
                         (get_decorators (cls_decorators cls)) methods)
              \<and> symbols_loop ((name, ClassDef cls) # rest) flag symbols
                  = symbols_loop rest flag
                      (symbols @ [Class name (doc_value (cls_doc_node cls))
                                    (get_decorators (cls_decorators cls)) methods])"
    if pub: "is_public_symbol name"
      and ok: "\<forall>(mn, m) \<in> set (cls_items cls). \<forall>f. m = FunctionDef f \<and> is_public_symbol mn
               \<longrightarrow> args (fn_args f) \<noteq> None"
  proof -
    from process_methods_ok [OF ok] obtain ms where "process_methods (cls_items cls) = Inr ms" ..
    then show ?thesis using pub by (simp add: process_class_def)
  qed
  from a b c show ?thesis by blast
qed

theorem process_class_always_witness:
  "symbols_loop [(''C'', ClassDef (Class_def None None
       [(''m'', FunctionDef (simple_function (Some [''self'']) None None))]))] False []
     = Inr [Class ''C'' [] [] [(''m'', ''m(self)'', [], [])]]"
  using process_class_always [where cls = "Class_def None None
       [(''m'', FunctionDef (simple_function (Some [''self'']) None None))]"
      and name = "''C''" and rest = "[]" and symbols = "[]" and flag = False]
  by (simp add: extraction_defs)

text \<open>
  C4. The methods of a class record are, in order, exactly the bindings of the class
  body that are function nodes with a public name, each with its name, signature,
  docstring (empty when absent) and decorators; other bindings, nested classes among
  them, contribute nothing. The record is the same under the other value of
  \<open>include_no_docstring\<close>.
\<close>

theorem class_methods_exact:
  "process_class cls name flag = Inr (Class n d decs methods) \<Longrightarrow>
   list_all2 (\<lambda>(mn, m) r. \<exists>f ps. m = FunctionDef f \<and> args (fn_args f) = Some ps
                 \<and> r = (mn, mn @ ''('' @ join '', '' ps @ '')'',
                        doc_value (fn_doc_node f), get_decorators (fn_decorators f)))
     (filter (\<lambda>(mn, m). (\<exists>f. m = FunctionDef f) \<and> is_public_symbol mn) (cls_items cls)) methods
   \<and> process_class cls name (\<not> flag) = Inr (Class n d decs methods)"
proof -
  assume h: "process_class cls name flag = Inr (Class n d decs methods)"
  then have "process_methods (cls_items cls) = Inr methods"
    by (auto simp: process_class_def split: sum.splits)
  from process_methods_exact [OF this] h show ?thesis
    by (simp add: process_class_def)
qed

theorem class_methods_exact_witness:
  "process_class (Class_def None None
       [(''a'', FunctionDef (simple_function (Some [''self'']) (Some ''doc'') None)),
        (''b'', FunctionDef (simple_function (Some [''self'']) None None)),
        (''_p'', FunctionDef (simple_function (Some [''self'']) None None)),
        (''x'', OtherNode),
        (''N'', ClassDef (Class_def None None
           [(''q'', FunctionDef (simple_function (Some [''self'']) None None))]))]) ''C'' True
     = Inr (Class ''C'' [] [] [(''a'', ''a(self)'', ''doc'', []), (''b'', ''b(self)'', [], [])])"
  using class_methods_exact [where cls = "Class_def None None
       [(''a'', FunctionDef (simple_function (Some [''self'']) (Some ''doc'') None)),
        (''b'', FunctionDef (simple_function (Some [''self'']) None None)),
        (''_p'', FunctionDef (simple_function (Some [''self'']) None None)),
        (''x'', OtherNode),
        (''N'', ClassDef (Class_def None None
           [(''q'', FunctionDef (simple_function (Some [''self'']) None None))]))]"
      and name = "''C''" and flag = False and n = "''C''" and d = "[]" and decs = "[]"
      and methods = "[(''a'', ''a(self)'', ''doc'', []), (''b'', ''b(self)'', [], [])]"]
  by (simp add: extraction_defs)

section \<open>Exceptions\<close>

text \<open>
  C5, as the claim states it, fails: an exception raised while a symbol is extracted is
  not swallowed. Here the first binding has no retrievable parameter list; the module
  pass ends with a \<open>RuntimeError\<close> and the second, well-formed function is never
  reached.
\<close>

theorem symbol_error_counterexample:
  "get_public_symbols
     \<lparr>mod_doc_node = None,
      mod_items = [(''bad'', FunctionDef (simple_function None (Some ''doc'') None)),
                   (''good'', FunctionDef (simple_function (Some []) (Some ''doc'') None))]\<rparr>
     False
   = Inl (Exn RuntimeError (''Error processing symbol bad: '' @ [CHR 0x27] @ ''NoneType''
                             @ [CHR 0x27] @ '' object is not iterable''))
   \<and> get_public_symbols
     \<lparr>mod_doc_node = None,
      mod_items = [(''bad'', FunctionDef (simple_function None (Some ''doc'') None)),
                   (''good'', FunctionDef (simple_function (Some []) (Some ''doc'') None))]\<rparr>
     False
   \<noteq> Inr [Function ''good'' ''good()'' ''doc'' []]"
  by (simp add: extraction_defs)

text \<open>
  C5, amended. An exception raised while a public top-level symbol is extracted is
  caught and raised again as a \<open>RuntimeError\<close> whose message carries the symbol's name
  and the original message; the module pass ends there, whatever bindings follow.
\<close>

theorem symbol_error_aborts_module:
  "mod_items m = pre @ (name, obj) # post \<Longrightarrow> symbols_loop pre flag [] = Inr symbols \<Longrightarrow>
   is_public_symbol name \<Longrightarrow> try_symbol name obj flag symbols = Inl e \<Longrightarrow>
   get_public_symbols m flag
     = Inl (Exn RuntimeError (''Error processing symbol '' @ name @ '': '' @ str_exn e))"
  by (simp add: get_public_symbols_def symbols_loop_append log_error_def)

theorem symbol_error_aborts_module_witness:
  "get_public_symbols
     \<lparr>mod_doc_node = None,
      mod_items = [(''good'', FunctionDef (simple_function (Some []) (Some ''doc'') None)),
                   (''bad'', FunctionDef (simple_function None (Some ''doc'') None)),
                   (''later'', FunctionDef (simple_function (Some []) (Some ''doc'') None))]\<rparr>
     False
   = Inl (Exn RuntimeError (''Error processing symbol bad: '' @ [CHR 0x27] @ ''NoneType''
                             @ [CHR 0x27] @ '' object is not iterable''))"
  using symbol_error_aborts_module [where m = "\<lparr>mod_doc_node = None,
      mod_items = [(''good'', FunctionDef (simple_function (Some []) (Some ''doc'') None)),
                   (''bad'', FunctionDef (simple_function None (Some ''doc'') None)),
                   (''later'', FunctionDef (simple_function (Some []) (Some ''doc'') None))]\<rparr>"
      and pre = "[(''good'', FunctionDef (simple_function (Some []) (Some ''doc'') None))]"
      and name = "''bad''" and obj = "FunctionDef (simple_function None (Some ''doc'') None)"
      and post = "[(''later'', FunctionDef (simple_function (Some []) (Some ''doc'') None))]"
      and flag = False and symbols = "[Function ''good'' ''good()'' ''doc'' []]"
      and e = "Exn TypeError ([CHR 0x27] @ ''NoneType'' @ [CHR 0x27] @ '' object is not iterable'')"]
  by (simp add: extraction_defs)

lemma process_modules_append:
  "process_modules E flag path (xs @ ys) w =
     (case process_modules E flag path xs w of
        (Some e, w') \<Rightarrow> (Some e, w')
      | (None, w') \<Rightarrow> process_modules E flag path ys w')"
  by (induction xs arbitrary: w) (auto split: prod.splits option.splits)

text \<open>
  C6. An exception raised while one top-level symbol is extracted leaves
  \<open>get_public_symbols\<close> as a \<open>RuntimeError\<close> naming the symbol. An exception raised
  while a module is processed, by the syntax-tree provider or by \<open>get_public_symbols\<close>,
  ends the loop over the modules with a \<open>RuntimeError\<close> naming the module: the modules
  after it are neither announced nor written. The run, which reaches the loop once the
  output file is open and the package imported, ends with that exception.
\<close>

theorem errors_are_fatal:
  "(is_public_symbol name \<and> try_symbol name obj flag symbols = Inl e \<longrightarrow>
      symbols_loop ((name, obj) # rest) flag symbols
        = Inl (Exn RuntimeError (''Error processing symbol '' @ name @ '': '' @ str_exn e)))
   \<and> (process_modules E flag output_file pre w = (None, w1)
        \<and> (ast_from_module_name E mod_name = Inl e'
             \<or> (\<exists>m. ast_from_module_name E mod_name = Inr m
                     \<and> get_public_symbols m flag = Inl e')) \<longrightarrow>
        process_modules E flag output_file (pre @ mod_name # rest_modules) w
          = (Some (Exn RuntimeError (''Error processing '' @ mod_name @ '': '' @ str_exn e')),
             print (''Processing module: '' @ mod_name) w1))
   \<and> (import_module E package_name = Inr package \<and> pkg_path package = Some path
        \<and> process_modules E flag output_file (walk_packages E path (pkg_name package @ ''.''))
             (f_write output_file (''# '' @ package_name @ '' Module Documentation\<newline>\<newline>'')
                w_open) = (Some e'', w')
        \<and> open_w E output_file w0 = Inr w_open \<longrightarrow>
        generate_filelist E package_name output_file flag w0 = (Some e'', w'))"
proof -
  have a: "symbols_loop ((name, obj) # rest) flag symbols
        = Inl (Exn RuntimeError (''Error processing symbol '' @ name @ '': '' @ str_exn e))"
    if "is_public_symbol name" "try_symbol name obj flag symbols = Inl e"
    using that by (simp add: log_error_def)
  have b: "process_modules E flag output_file (pre @ mod_name # rest_modules) w
          = (Some (Exn RuntimeError (''Error processing '' @ mod_name @ '': '' @ str_exn e')),
             print (''Processing module: '' @ mod_name) w1)"
    if "process_modules E flag output_file pre w = (None, w1)"
      "ast_from_module_name E mod_name = Inl e'
             \<or> (\<exists>m. ast_from_module_name E mod_name = Inr m
                     \<and> get_public_symbols m flag = Inl e')"
    using that
    by (auto simp: process_modules_append process_module_def module_error_def)
  have c: "generate_filelist E package_name output_file flag w0 = (Some e'', w')"
    if "import_module E package_name = Inr package" "pkg_path package = Some path"
       "process_modules E flag output_file (walk_packages E path (pkg_name package @ ''.''))
             (f_write output_file (''# '' @ package_name @ '' Module Documentation\<newline>\<newline>'')
                w_open) = (Some e'', w')"
       "open_w E output_file w0 = Inr w_open"
    using that by (simp add: generate_filelist_def)
  from a b c show ?thesis by blast
qed

theorem errors_are_fatal_witness:
  "generate_filelist
     \<lparr>open_error = (\<lambda>p. None),
        import_module = (\<lambda>p. Inr \<lparr>pkg_name = ''pkg'', pkg_path = Some [''/src/pkg'']\<rparr>),
        walk_packages = (\<lambda>path prefix. [''pkg.a'', ''pkg.b'']),
        ast_from_module_name = (\<lambda>n. Inr \<lparr>mod_doc_node = None,
           mod_items = [(''bad'', FunctionDef (simple_function None (Some ''doc'') None))]\<rparr>)\<rparr>
     ''pkg'' ''out.md'' False \<lparr>fs = Map.empty, stdout = []\<rparr>
   = (Some (Exn RuntimeError (''Error processing pkg.a: Error processing symbol bad: ''
              @ [CHR 0x27] @ ''NoneType'' @ [CHR 0x27] @ '' object is not iterable'')),
      \<lparr>fs = [''out.md'' \<mapsto> ''# pkg Module Documentation\<newline>\<newline>''],
       stdout = [''Processing module: pkg.a'']\<rparr>)"
proof -
  let ?E = "\<lparr>open_error = (\<lambda>p. None),
        import_module = (\<lambda>p. Inr \<lparr>pkg_name = ''pkg'', pkg_path = Some [''/src/pkg'']\<rparr>),
        walk_packages = (\<lambda>path prefix. [''pkg.a'', ''pkg.b'']),
        ast_from_module_name = (\<lambda>n. Inr \<lparr>mod_doc_node = None,
           mod_items = [(''bad'', FunctionDef (simple_function None (Some ''doc'') None))]\<rparr>)\<rparr>"
  let ?bad = "FunctionDef (simple_function None (Some ''doc'') None)"
  let ?m = "\<lparr>mod_doc_node = None, mod_items = [(''bad'', ?bad)]\<rparr>"
  let ?e = "Exn TypeError ([CHR 0x27] @ ''NoneType'' @ [CHR 0x27] @ '' object is not iterable'')"
  let ?e' = "Exn RuntimeError (''Error processing symbol bad: '' @ str_exn ?e)"
  let ?w = "\<lparr>fs = Map.empty, stdout = []\<rparr> :: world"
  let ?w1 = "\<lparr>fs = [''out.md'' \<mapsto> []], stdout = []\<rparr> :: world"
  let ?w2 = "f_write ''out.md'' (''# '' @ ''pkg'' @ '' Module Documentation\<newline>\<newline>'') ?w1"
  note T = errors_are_fatal [where name = "''bad''" and obj = ?bad and flag = False
      and symbols = "[]" and e = ?e and rest = "[]" and E = ?E and output_file = "''out.md''"
      and pre = "[]" and w = ?w2 and ?w1.0 = ?w2 and mod_name = "''pkg.a''" and e' = ?e'
      and rest_modules = "[''pkg.b'']" and package_name = "''pkg''" and ?w0.0 = ?w
      and w_open = ?w1
      and package = "\<lparr>pkg_name = ''pkg'', pkg_path = Some [''/src/pkg'']\<rparr>"
      and path = "[''/src/pkg'']"
      and e'' = "Exn RuntimeError (''Error processing '' @ ''pkg.a'' @ '': '' @ str_exn ?e')"
      and w' = "print (''Processing module: '' @ ''pkg.a'') ?w2"]
  have pub: "is_public_symbol ''bad''"
    by (simp add: is_public_symbol_def startswith_def)
  have raise: "try_symbol ''bad'' ?bad False [] = Inl ?e"
    by (simp add: extraction_defs)
  from T pub raise
  have "symbols_loop [(''bad'', ?bad)] False []
          = Inl (Exn RuntimeError (''Error processing symbol '' @ ''bad'' @ '': '' @ str_exn ?e))"
    by blast
  then have sym: "get_public_symbols ?m False = Inl ?e'"
    by (simp add: get_public_symbols_def)
  have nil: "process_modules ?E False ''out.md'' [] ?w2 = (None, ?w2)"
    by simp
  have ast: "\<exists>m. ast_from_module_name ?E ''pkg.a'' = Inr m \<and> get_public_symbols m False = Inl ?e'"
    using sym by simp
  from T nil ast
  have mods: "process_modules ?E False ''out.md'' ([] @ ''pkg.a'' # [''pkg.b'']) ?w2
      = (Some (Exn RuntimeError (''Error processing '' @ ''pkg.a'' @ '': '' @ str_exn ?e')),
         print (''Processing module: '' @ ''pkg.a'') ?w2)"
    by blast
  have imp: "import_module ?E ''pkg'' = Inr \<lparr>pkg_name = ''pkg'', pkg_path = Some [''/src/pkg'']\<rparr>"
    and pth: "pkg_path \<lparr>pkg_name = ''pkg'', pkg_path = Some [''/src/pkg'']\<rparr> = Some [''/src/pkg'']"
    and walk: "walk_packages ?E [''/src/pkg'']
                 (pkg_name \<lparr>pkg_name = ''pkg'', pkg_path = Some [''/src/pkg'']\<rparr> @ ''.'')
               = [] @ ''pkg.a'' # [''pkg.b'']"
    by simp_all
  have opened: "open_w ?E ''out.md'' ?w = Inr ?w1"
    by (simp add: open_w_def)
  from T imp pth mods [folded walk] opened
  have "generate_filelist ?E ''pkg'' ''out.md'' False ?w
      = (Some (Exn RuntimeError (''Error processing '' @ ''pkg.a'' @ '': '' @ str_exn ?e')),
         print (''Processing module: '' @ ''pkg.a'') ?w2)"
    by blast
  then show ?thesis
    by (simp add: print_def f_write_def)
qed

section \<open>Output\<close>

text \<open>
  C7. With an empty decorator list the text that \<open>generate_filelist\<close> writes for a
  function has a space between the opening backquote and \<open>def\<close>; \<open>format_symbol\<close>
  leaves none for the same function.
\<close>

theorem empty_decorators_leave_space:
  "get_public_symbols
     \<lparr>mod_doc_node = None,
      mod_items = [(''foo'', FunctionDef (simple_function (Some []) (Some ''doc'') None))]\<rparr> False
     = Inr [Function ''foo'' ''foo()'' ''doc'' []]
   \<and> section_text ''pkg.mod''
        \<lparr>mod_doc_node = None,
         mod_items = [(''foo'', FunctionDef (simple_function (Some []) (Some ''doc'') None))]\<rparr>
        [Function ''foo'' ''foo()'' ''doc'' []]
     = ''## pkg.mod\<newline>\<newline>- ` def foo()`\<newline>    doc\<newline>\<newline>''
   \<and> format_symbol ''foo'' ''foo()'' ''doc'' (Some []) False
     = ''- `def foo()`\<newline>    doc\<newline>''"
  by (simp add: extraction_defs section_text_def decorator_str_def strip_def isspace_def format_symbol_def
        after_first_def before_last_def)

lemma process_module_fs:
  assumes "fs w = fs v"
  shows "fst (process_module E flag path m w) = fst (process_module E flag path m v)
         \<and> fs (snd (process_module E flag path m w)) = fs (snd (process_module E flag path m v))"
  using assms
  by (auto simp: process_module_def print_def f_write_def Let_def split: sum.splits)

lemma process_modules_fs:
  "fs w = fs v \<Longrightarrow>
   fst (process_modules E flag path ms w) = fst (process_modules E flag path ms v)
   \<and> fs (snd (process_modules E flag path ms w)) = fs (snd (process_modules E flag path ms v))"
proof (induction ms arbitrary: w v)
  case Nil
  then show ?case by simp
next
  case (Cons m ms)
  obtain r w' where a: "process_module E flag path m w = (r, w')" by (cases "process_module E flag path m w")
  obtain s v' where b: "process_module E flag path m v = (s, v')" by (cases "process_module E flag path m v")
  from process_module_fs [OF Cons.prems, of E flag path m] a b
  have rs: "r = s" and f: "fs w' = fs v'" by simp_all
  show ?case
  proof (cases s)
    case None
    with a b rs Cons.IH [OF f] show ?thesis by simp
  next
    case (Some e)
    with a b rs f show ?thesis by simp
  qed
qed

lemma process_module_empty:
  "ast_from_module_name E mod_name = Inr m \<Longrightarrow> get_public_symbols m flag = Inr [] \<Longrightarrow>
   process_module E flag path mod_name w
     = (None, w\<lparr>stdout := stdout w @ [''Processing module: '' @ mod_name,
                                       ''No public symbols found in '' @ mod_name]\<rparr>)"
  by (simp add: process_module_def print_def)

lemma process_modules_skip:
  assumes m: "ast_from_module_name E mod_name = Inr m" "get_public_symbols m flag = Inr []"
  shows "fst (process_modules E flag path (pre @ mod_name # post) w)
           = fst (process_modules E flag path (pre @ post) w)
         \<and> fs (snd (process_modules E flag path (pre @ mod_name # post) w))
           = fs (snd (process_modules E flag path (pre @ post) w))"
proof -
  have step: "fst (process_modules E flag path (mod_name # post) v)
           = fst (process_modules E flag path post v)
         \<and> fs (snd (process_modules E flag path (mod_name # post) v))
           = fs (snd (process_modules E flag path post v))" for v
    using process_modules_fs [of "v\<lparr>stdout := stdout v @ [''Processing module: '' @ mod_name,
                                       ''No public symbols found in '' @ mod_name]\<rparr>" v E flag path post]
    by (simp add: process_module_empty [OF m])
  show ?thesis
    using step
    by (cases "process_modules E flag path pre w")
       (auto simp: process_modules_append [of E flag path pre] split: option.splits)
qed

text \<open>
  C9. A module whose symbol list is empty is announced on standard output, with a
  second line saying that no public symbols were found, and nothing is written for it:
  the output file is what it would be without that module in the walk. A module with at
  least one symbol gets a section that starts with its \<open>##\<close> header.
\<close>

theorem empty_module_writes_nothing:
  "ast_from_module_name E mod_name = Inr m \<and> get_public_symbols m flag = Inr symbols \<longrightarrow>
     (symbols = [] \<longrightarrow>
        process_module E flag output_file mod_name w
          = (None, w\<lparr>stdout := stdout w @ [''Processing module: '' @ mod_name,
                                            ''No public symbols found in '' @ mod_name]\<rparr>)
        \<and> fs (snd (process_modules E flag output_file (pre @ mod_name # post) w))
            = fs (snd (process_modules E flag output_file (pre @ post) w)))
     \<and> (symbols \<noteq> [] \<longrightarrow>
          (\<exists>body. process_module E flag output_file mod_name w
             = (None, f_write output_file (''## '' @ mod_name @ ''\<newline>\<newline>'' @ body)
                        (print (''Processing module: '' @ mod_name) w))))"
proof (intro impI conjI; (elim conjE)?)
  assume a: "ast_from_module_name E mod_name = Inr m" "get_public_symbols m flag = Inr symbols"
    and e: "symbols = []"
  from a e show "process_module E flag output_file mod_name w
          = (None, w\<lparr>stdout := stdout w @ [''Processing module: '' @ mod_name,
                                            ''No public symbols found in '' @ mod_name]\<rparr>)"
    by (simp add: process_module_empty)
  from a e have g: "get_public_symbols m flag = Inr []" by simp
  from process_modules_skip [OF a(1) g]
  show "fs (snd (process_modules E flag output_file (pre @ mod_name # post) w))
            = fs (snd (process_modules E flag output_file (pre @ post) w))"
    by simp
next
  assume a: "ast_from_module_name E mod_name = Inr m" "get_public_symbols m flag = Inr symbols"
    and e: "symbols \<noteq> []"
  then have "process_module E flag output_file mod_name w
             = (None, f_write output_file (section_text mod_name m symbols)
                        (print (''Processing module: '' @ mod_name) w))"
    by (simp add: process_module_def)
  moreover have "section_text mod_name m symbols
      = ''## '' @ mod_name @ ''\<newline>\<newline>''
        @ ((let module_doc = doc_value (mod_doc_node m)
            in if module_doc \<noteq> []
               then ''> '' @ join ''\<newline>> '' (split_lines (strip module_doc)) @ ''\<newline>\<newline>''
               else [])
           @ concat (map symbol_text symbols))"
    by (simp add: section_text_def)
  ultimately show "\<exists>body. process_module E flag output_file mod_name w
             = (None, f_write output_file (''## '' @ mod_name @ ''\<newline>\<newline>'' @ body)
                        (print (''Processing module: '' @ mod_name) w))"
    by (metis (no_types))
qed

theorem empty_module_writes_nothing_witness:
  "process_module
     \<lparr>open_error = (\<lambda>p. None),
        import_module = (\<lambda>p. Inr \<lparr>pkg_name = ''pkg'', pkg_path = Some [''/src/pkg'']\<rparr>),
        walk_packages = (\<lambda>path prefix. [''pkg.m'']),
        ast_from_module_name = (\<lambda>n. Inr \<lparr>mod_doc_node = Some ''About m'',
           mod_items = [(''_priv'', FunctionDef (simple_function (Some []) (Some ''doc'') None)),
                        (''nodoc'', FunctionDef (simple_function (Some []) None None))]\<rparr>)\<rparr>
     False ''out.md'' ''pkg.m'' \<lparr>fs = [''out.md'' \<mapsto> ''# pkg''], stdout = []\<rparr>
   = (None, \<lparr>fs = [''out.md'' \<mapsto> ''# pkg''],
              stdout = [''Processing module: pkg.m'', ''No public symbols found in pkg.m'']\<rparr>)
   \<and> (\<exists>body. process_module
     \<lparr>open_error = (\<lambda>p. None),
        import_module = (\<lambda>p. Inr \<lparr>pkg_name = ''pkg'', pkg_path = Some [''/src/pkg'']\<rparr>),
        walk_packages = (\<lambda>path prefix. [''pkg.m'']),
        ast_from_module_name = (\<lambda>n. Inr \<lparr>mod_doc_node = Some ''About m'',
           mod_items = [(''_priv'', FunctionDef (simple_function (Some []) (Some ''doc'') None)),
                        (''nodoc'', FunctionDef (simple_function (Some []) None None))]\<rparr>)\<rparr>
     True ''out.md'' ''pkg.m'' \<lparr>fs = [''out.md'' \<mapsto> ''# pkg''], stdout = []\<rparr>
   = (None, f_write ''out.md'' (''## pkg.m\<newline>\<newline>'' @ body)
              (print ''Processing module: pkg.m''
                 \<lparr>fs = [''out.md'' \<mapsto> ''# pkg''], stdout = []\<rparr>)))"
proof -
  let ?m = "\<lparr>mod_doc_node = Some ''About m'',
           mod_items = [(''_priv'', FunctionDef (simple_function (Some []) (Some ''doc'') None)),
                        (''nodoc'', FunctionDef (simple_function (Some []) None None))]\<rparr>"
  let ?E = "\<lparr>open_error = (\<lambda>p. None),
        import_module = (\<lambda>p. Inr \<lparr>pkg_name = ''pkg'', pkg_path = Some [''/src/pkg'']\<rparr>),
        walk_packages = (\<lambda>path prefix. [''pkg.m'']),
        ast_from_module_name = (\<lambda>n. Inr \<lparr>mod_doc_node = Some ''About m'',
           mod_items = [(''_priv'', FunctionDef (simple_function (Some []) (Some ''doc'') None)),
                        (''nodoc'', FunctionDef (simple_function (Some []) None None))]\<rparr>)\<rparr>"
  let ?w = "\<lparr>fs = [''out.md'' \<mapsto> ''# pkg''], stdout = []\<rparr>"
  have off: "get_public_symbols ?m False = Inr []"
    by (simp add: extraction_defs)
  have on: "get_public_symbols ?m True = Inr [Function ''nodoc'' ''nodoc()'' [] []]"
    by (simp add: extraction_defs)
  have ast: "ast_from_module_name ?E ''pkg.m'' = Inr ?m"
    by simp
  from empty_module_writes_nothing [where E = ?E and mod_name = "''pkg.m''" and m = ?m
      and flag = False and symbols = "[]" and output_file = "''out.md''" and w = ?w
      and pre = "[]" and post = "[]"] ast off
  have a: "process_module ?E False ''out.md'' ''pkg.m'' ?w
     = (None, ?w\<lparr>stdout := stdout ?w @ [''Processing module: '' @ ''pkg.m'',
                                         ''No public symbols found in '' @ ''pkg.m'']\<rparr>)"
    by blast
  from empty_module_writes_nothing [where E = ?E and mod_name = "''pkg.m''" and m = ?m
      and flag = True and symbols = "[Function ''nodoc'' ''nodoc()'' [] []]"
      and output_file = "''out.md''" and w = ?w] ast on
  have b: "\<exists>body. process_module ?E True ''out.md'' ''pkg.m'' ?w
     = (None, f_write ''out.md'' (''## '' @ ''pkg.m'' @ ''\<newline>\<newline>'' @ body)
                (print (''Processing module: '' @ ''pkg.m'') ?w))"
    by blast
  from a b show ?thesis by simp
qed




end
